theory Spec2Isabelle
  imports Main
begin

section \<open>The chat state hook \<open>useChat\<close>\<close>

subsection \<open>Messages, options and the request\<close>

text \<open>
  The \<open>Message\<close> type of the hook: identifier, creation time, textual content, role and
  an optional function call. The time is a number of milliseconds, identifiers are strings.
\<close>

datatype role = User | Assistant | System | FunctionRole

record function_call =
  fc_name :: string
  fc_arguments :: string

record message =
  id_msg :: string
  createdAt :: nat
  content :: string
  role :: role
  function_call :: "function_call option"

record function_decl =
  fn_name :: string
  fn_description :: string
  fn_parameters :: string

text \<open>
  \<open>UseChatOptions\<close>. Every field is optional in the source. Of \<open>onFunctionCall\<close> only
  its presence matters to the hook, so it is a flag; what the handler does is outside
  the hook and appears as one entry of the trace below.
\<close>

record use_chat_options =
  api :: "string option"
  systemMessages :: "message list option"
  onFunctionCall :: bool
  headers :: "(string \<times> string) list option"
  functions_opt :: "function_decl list option"

text \<open>The argument of \<open>client.fetch\<close>.\<close>

record fetch_params =
  fp_messages :: "message list"
  fp_functions :: "function_decl list option"
  fp_headers :: "(string \<times> string) list option"

subsection \<open>State cells, renders and the trace of effects\<close>

text \<open>
  Everything the hook does to the outside is recorded in order: the calls of the state
  setters, the calls on the streaming client, the settling of the promise of the turn and
  the call of the function-call handler.
\<close>

datatype effect =
    SetMessages "message list"
  | SetIsLoading bool
  | ClientNew string
  | ClientOn string
  | ClientOff string
  | ClientFetch fetch_params
  | Resolve message
  | Reject string
  | OnFunctionCall "message list" function_call

text \<open>
  The three \<open>useState\<close> cells hold the value that the next run of \<open>useChat\<close> will read.
  A setter replaces the value of its cell; it does not change the constants
  \<open>messages\<close>, \<open>input\<close> and \<open>isLoading\<close> that a run of \<open>useChat\<close> has already bound.
\<close>

record world =
  messages_cell :: "message list"
  input_cell :: string
  isLoading_cell :: bool
  trace :: "effect list"

text \<open>
  One run of the body of \<open>useChat\<close> binds \<open>messages\<close>, \<open>input\<close> and \<open>isLoading\<close> to the
  current values of the cells. The functions \<open>append\<close>, \<open>reload\<close> and \<open>runChatCompletion\<close>
  defined in that run close over these constants and over \<open>options\<close>: each of them takes
  this closure environment as its first argument.
\<close>

record render =
  options :: use_chat_options
  messages :: "message list"
  input :: string
  isLoading :: bool

definition useChat :: "use_chat_options \<Rightarrow> world \<Rightarrow> render" where
  "useChat opts w =
     \<lparr>options = opts, messages = messages_cell w, input = input_cell w,
      isLoading = isLoading_cell w\<rparr>"

text \<open>The values of \<open>nanoid()\<close> and \<open>new Date()\<close> read by a turn.\<close>

record fresh =
  fresh_id :: string
  fresh_now :: nat

datatype promise_state = Pending | Resolved message | Rejected string

text \<open>
  A turn is one call of \<open>runChatCompletion\<close>: its closure environment, its local
  \<open>assistantMessage\<close> (mutated by the listeners), the event names for which its client
  has a listener, and the state of the promise it returned. \<open>awaiting\<close> says that a call
  of \<open>runChatCompletionAndHandleFunctionCall\<close> is suspended at its \<open>await\<close> of that
  promise.
\<close>

record turn =
  closure :: render
  assistantMessage :: message
  listeners :: "string set"
  promise :: promise_state
  awaiting :: bool

type_synonym run = "turn \<times> world"

text \<open>Statements run in order: each is a function on the state of the run.\<close>

definition seq :: "('s \<Rightarrow> 's) list \<Rightarrow> 's \<Rightarrow> 's" where
  "seq steps s = fold (\<lambda>step acc. step acc) steps s"

definition log_effect :: "effect \<Rightarrow> world \<Rightarrow> world" where
  "log_effect e w = w\<lparr>trace := trace w @ [e]\<rparr>"

definition setMessages :: "message list \<Rightarrow> world \<Rightarrow> world" where
  "setMessages ms w = log_effect (SetMessages ms) (w\<lparr>messages_cell := ms\<rparr>)"

definition setIsLoading :: "bool \<Rightarrow> world \<Rightarrow> world" where
  "setIsLoading b w = log_effect (SetIsLoading b) (w\<lparr>isLoading_cell := b\<rparr>)"

definition in_world :: "(world \<Rightarrow> world) \<Rightarrow> run \<Rightarrow> run" where
  "in_world f s = (fst s, f (snd s))"

subsection \<open>The streaming client\<close>

text \<open>
  Modelled from the spec: the class \<open>ChatCompletionClient\<close> (\<open>on\<close>, \<open>off\<close>, \<open>fetch\<close> and
  the delivery of events) is imported by the hook and is not among the sources. The
  client emits \<open>content\<close>, \<open>function\<close>, \<open>end\<close> and \<open>error\<close> events to its subscribers;
  \<open>on\<close> subscribes the listener of an event name, \<open>off\<close> removes the listeners of
  that name, and an event reaches a listener only while it is subscribed.
\<close>

datatype client_event =
    ContentEvent string
  | EndEvent
  | ErrorEvent string
  | FunctionEvent function_call

fun event_name :: "client_event \<Rightarrow> string" where
  "event_name (ContentEvent c) = ''content''"
| "event_name EndEvent = ''end''"
| "event_name (ErrorEvent e) = ''error''"
| "event_name (FunctionEvent fc) = ''function''"

definition client_new :: "string \<Rightarrow> run \<Rightarrow> run" where
  "client_new url s = in_world (log_effect (ClientNew url)) s"

definition client_on :: "string \<Rightarrow> run \<Rightarrow> run" where
  "client_on name s =
     ((fst s)\<lparr>listeners := insert name (listeners (fst s))\<rparr>,
      log_effect (ClientOn name) (snd s))"

definition client_off :: "string \<Rightarrow> run \<Rightarrow> run" where
  "client_off name s =
     ((fst s)\<lparr>listeners := listeners (fst s) - {name}\<rparr>,
      log_effect (ClientOff name) (snd s))"

definition client_fetch :: "fetch_params \<Rightarrow> run \<Rightarrow> run" where
  "client_fetch p s = in_world (log_effect (ClientFetch p)) s"

subsection \<open>The promise of a turn and what awaits it\<close>

text \<open>
  \<open>resolve\<close> and \<open>reject\<close> settle the promise of the turn if it is still pending, and
  do nothing else: the code that awaits the promise does not run inside them.
\<close>

definition settle :: "promise_state \<Rightarrow> run \<Rightarrow> run" where
  "settle p s =
     (if promise (fst s) = Pending then ((fst s)\<lparr>promise := p\<rparr>, snd s) else s)"

definition resolve :: "message \<Rightarrow> run \<Rightarrow> run" where
  "resolve m s = in_world (log_effect (Resolve m)) (settle (Resolved m) s)"

definition reject :: "string \<Rightarrow> run \<Rightarrow> run" where
  "reject e s = in_world (log_effect (Reject e)) (settle (Rejected e) s)"

text \<open>
  The code of \<open>runChatCompletionAndHandleFunctionCall\<close> after its \<open>await\<close>. It is a job
  of its own, which the event loop runs once, some time after the promise has been
  settled and the listener that settled it has returned. On a resolved promise: if the
  message carries a function call and a handler is configured, the handler is called with
  the closed-over \<open>messages\<close> and the call. On a rejected promise the \<open>await\<close> throws and
  the rejection passes to the caller of \<open>append\<close> or \<open>reload\<close>. While the promise is
  pending, or when nothing awaits it, the job does not run.
\<close>

definition after_await :: "run \<Rightarrow> run" where
  "after_await s =
     (if awaiting (fst s)
      then (case promise (fst s) of
              Pending \<Rightarrow> s
            | Rejected e \<Rightarrow> ((fst s)\<lparr>awaiting := False\<rparr>, snd s)
            | Resolved message \<Rightarrow>
                (case function_call message of
                   None \<Rightarrow> ((fst s)\<lparr>awaiting := False\<rparr>, snd s)
                 | Some fc \<Rightarrow>
                     if onFunctionCall (options (closure (fst s)))
                     then ((fst s)\<lparr>awaiting := False\<rparr>,
                           log_effect (OnFunctionCall (messages (closure (fst s))) fc) (snd s))
                     else ((fst s)\<lparr>awaiting := False\<rparr>, snd s)))
      else s)"

subsection \<open>\<open>runChatCompletion\<close> and its four listeners\<close>

definition cleanup :: "run \<Rightarrow> run" where
  "cleanup =
     seq [client_off ''content'', client_off ''end'', client_off ''error'',
          client_off ''function'']"

text \<open>
  \<open>setMessages([...messages, { ...assistantMessage }])\<close>: the closed-over \<open>messages\<close>
  followed by a copy of the current \<open>assistantMessage\<close>.
\<close>

definition publish :: "run \<Rightarrow> run" where
  "publish s =
     in_world (setMessages (messages (closure (fst s)) @ [assistantMessage (fst s)])) s"

definition content_listener :: "string \<Rightarrow> run \<Rightarrow> run" where
  "content_listener c =
     seq [\<lambda>s. ((fst s)\<lparr>assistantMessage :=
                  (assistantMessage (fst s))
                    \<lparr>content := content (assistantMessage (fst s)) @ c\<rparr>\<rparr>, snd s),
          publish]"

definition end_listener :: "run \<Rightarrow> run" where
  "end_listener =
     seq [in_world (setIsLoading False),
          cleanup,
          \<lambda>s. resolve (assistantMessage (fst s)) s]"

definition error_listener :: "string \<Rightarrow> run \<Rightarrow> run" where
  "error_listener e =
     seq [in_world (setIsLoading False),
          cleanup,
          reject e]"

definition function_listener :: "function_call \<Rightarrow> run \<Rightarrow> run" where
  "function_listener fc =
     seq [\<lambda>s. ((fst s)\<lparr>assistantMessage :=
                  (assistantMessage (fst s))\<lparr>function_call := Some fc\<rparr>\<rparr>, snd s),
          publish,
          in_world (setIsLoading False),
          cleanup,
          \<lambda>s. resolve (assistantMessage (fst s)) s]"

text \<open>\<open>a || b\<close> on an optional string: \<open>undefined\<close> and the empty string give \<open>b\<close>.\<close>

definition or_string :: "string option \<Rightarrow> string \<Rightarrow> string" where
  "or_string a b = (case a of None \<Rightarrow> b | Some x \<Rightarrow> if x = [] then b else x)"

text \<open>\<open>a || []\<close> on an optional array: every array is truthy.\<close>

definition or_empty :: "'a list option \<Rightarrow> 'a list" where
  "or_empty a = (case a of None \<Rightarrow> [] | Some xs \<Rightarrow> xs)"

definition messagesWithContext :: "render \<Rightarrow> message list" where
  "messagesWithContext r = or_empty (systemMessages (options r)) @ messages r"

definition new_assistantMessage :: "fresh \<Rightarrow> message" where
  "new_assistantMessage fr =
     \<lparr>id_msg = fresh_id fr, createdAt = fresh_now fr, content = [], role = Assistant,
      function_call = None\<rparr>"

definition runChatCompletion :: "render \<Rightarrow> fresh \<Rightarrow> world \<Rightarrow> run" where
  "runChatCompletion r fr w =
     seq [in_world (setIsLoading True),
          publish,
          client_new (or_string (api (options r)) ''/api/copilotkit/openai''),
          client_on ''content'',
          client_on ''end'',
          client_on ''error'',
          client_on ''function'',
          client_fetch
            \<lparr>fp_messages = messagesWithContext r,
             fp_functions = functions_opt (options r),
             fp_headers = headers (options r)\<rparr>]
       (\<lparr>closure = r, assistantMessage = new_assistantMessage fr, listeners = {},
         promise = Pending, awaiting = False\<rparr>, w)"

text \<open>
  \<open>runChatCompletionAndHandleFunctionCall\<close> calls \<open>runChatCompletion\<close> and suspends at
  the \<open>await\<close> of its promise; the rest of it is \<open>after_await\<close>.
\<close>

definition runChatCompletionAndHandleFunctionCall :: "render \<Rightarrow> fresh \<Rightarrow> world \<Rightarrow> run" where
  "runChatCompletionAndHandleFunctionCall r fr w =
     (let s = runChatCompletion r fr w in ((fst s)\<lparr>awaiting := True\<rparr>, snd s))"

text \<open>
  Modelled from the spec: the delivery of one event by the client, and of a sequence of
  events in emission order. The listener is the one \<open>runChatCompletion\<close> subscribed.
\<close>

definition emit :: "client_event \<Rightarrow> run \<Rightarrow> run" where
  "emit ev s =
     (if event_name ev \<in> listeners (fst s)
      then (case ev of
              ContentEvent c \<Rightarrow> content_listener c s
            | EndEvent \<Rightarrow> end_listener s
            | ErrorEvent e \<Rightarrow> error_listener e s
            | FunctionEvent fc \<Rightarrow> function_listener fc s)
      else s)"

definition emit_all :: "client_event list \<Rightarrow> run \<Rightarrow> run" where
  "emit_all evs s = fold emit evs s"

subsection \<open>\<open>append\<close>, \<open>reload\<close> and \<open>stop\<close>\<close>

text \<open>
  Both return the turn they started, if any, and the world. \<open>messages.slice(0, -1)\<close> is
  the list without its last element; \<open>messages[messages.length - 1]\<close> is read only when
  the list is not empty.
\<close>

definition started :: "run \<Rightarrow> turn option \<times> world" where
  "started s = (Some (fst s), snd s)"

definition append :: "render \<Rightarrow> fresh \<Rightarrow> message \<Rightarrow> world \<Rightarrow> turn option \<times> world" where
  "append r fr message w =
     (if isLoading r then (None, w)
      else started (runChatCompletionAndHandleFunctionCall r fr
                      (setMessages (messages r @ [message]) w)))"

definition reload :: "render \<Rightarrow> fresh \<Rightarrow> world \<Rightarrow> turn option \<times> world" where
  "reload r fr w =
     (if isLoading r \<or> length (messages r) = 0 then (None, w)
      else
        let lastMessage = messages r ! (length (messages r) - 1);
            w1 = (if role lastMessage = Assistant
                  then setMessages (butlast (messages r)) w else w)
        in started (runChatCompletionAndHandleFunctionCall r fr w1))"

text \<open>
  \<open>stop\<close> throws: the result is the error, and the turn in flight (if any) and the world
  are as they were.
\<close>

definition stop :: "turn option \<times> world \<Rightarrow> (string + unit) \<times> (turn option \<times> world)" where
  "stop s = (Inl ''Not implemented'', s)"

text \<open>The requests issued so far, in order.\<close>

fun fetched :: "effect list \<Rightarrow> fetch_params list" where
  "fetched [] = []"
| "fetched (ClientFetch p # es) = p # fetched es"
| "fetched (e # es) = fetched es"

text \<open>
  A turn is in flight when its four listeners are subscribed, its promise is pending and
  the last list it published is the closed-over \<open>messages\<close> followed by its
  \<open>assistantMessage\<close>.
\<close>

definition in_flight :: "run \<Rightarrow> bool" where
  "in_flight s =
     (listeners (fst s) = {''content'', ''end'', ''error'', ''function''} \<and>
      promise (fst s) = Pending \<and>
      messages_cell (snd s) = messages (closure (fst s)) @ [assistantMessage (fst s)])"

section \<open>The Unify service adapter\<close>

text \<open>
  The messages of a runtime request are instances of several classes, of which the adapter
  looks only at \<open>TextMessage\<close> and its \<open>role\<close> and \<open>content\<close>. The classes are declared
  outside the sources: the type of roles and the other kinds of message are parameters.
\<close>

record 'r text_message =
  tm_role :: 'r
  tm_content :: string

datatype ('r, 'x) request_message =
    is_TextMessage: TextMessage (the_text: "'r text_message")
  | OtherMessage 'x

record 'r chat_message =
  cm_role :: 'r
  cm_content :: string

record ('r, 'x) completion_request =
  req_messages :: "('r, 'x) request_message list"
  threadId :: "string option"

record unify_adapter_params =
  p_apiKey :: "string option"
  p_model :: string

record unify_adapter =
  apiKey :: string
  model :: "string option"

text \<open>The argument of \<open>openai.chat.completions.create\<close>.\<close>

record 'r create_params =
  cp_model :: "string option"
  cp_messages :: "'r chat_message list"
  cp_stream :: bool

text \<open>The constructor: \<open>options\<close> itself is optional, and an empty key counts as absent.\<close>

definition new_UnifyAdapter :: "unify_adapter_params option \<Rightarrow> unify_adapter" where
  "new_UnifyAdapter opts =
     \<lparr>apiKey = or_string (case opts of None \<Rightarrow> None | Some p \<Rightarrow> p_apiKey p) ''UNIFY_API_KEY'',
      model = map_option p_model opts\<rparr>"

text \<open>
  \<open>process\<close>, up to its call of the provider: the result is the argument of that call.
  The messages are filtered by \<open>instanceof TextMessage\<close>, cast, and mapped to their
  \<open>role\<close> and \<open>content\<close>.
\<close>

definition process :: "unify_adapter \<Rightarrow> ('r, 'x) completion_request \<Rightarrow> 'r create_params" where
  "process a request =
     \<lparr>cp_model = model a,
      cp_messages =
        map (\<lambda>m. \<lparr>cm_role = tm_role (the_text m), cm_content = tm_content (the_text m)\<rparr>)
          (filter is_TextMessage (req_messages request)),
      cp_stream = True\<rparr>"

text \<open>
  What the provider is to receive, read off the description of the adapter: going through
  the messages of the request in order, a text message gives its role and content, any
  other message gives nothing.
\<close>

fun forwarded :: "('r, 'x) request_message list \<Rightarrow> 'r chat_message list" where
  "forwarded [] = []"
| "forwarded (TextMessage t # ms) =
     \<lparr>cm_role = tm_role t, cm_content = tm_content t\<rparr> # forwarded ms"
| "forwarded (OtherMessage x # ms) = forwarded ms"

section \<open>Concrete inputs\<close>

definition sys0 :: message where
  "sys0 = \<lparr>id_msg = ''s0'', createdAt = 0, content = ''Be brief.'', role = System,
           function_call = None\<rparr>"

definition user0 :: message where
  "user0 = \<lparr>id_msg = ''u0'', createdAt = 1, content = ''hi'', role = User,
            function_call = None\<rparr>"

definition asst0 :: message where
  "asst0 = \<lparr>id_msg = ''a0'', createdAt = 2, content = ''Hello'', role = Assistant,
            function_call = None\<rparr>"

definition opts0 :: use_chat_options where
  "opts0 = \<lparr>api = None, systemMessages = Some [sys0], onFunctionCall = False,
            headers = None, functions_opt = None\<rparr>"

definition fr0 :: fresh where
  "fr0 = \<lparr>fresh_id = ''a1'', fresh_now = 3\<rparr>"

definition world0 :: "message list \<Rightarrow> bool \<Rightarrow> world" where
  "world0 ms b = \<lparr>messages_cell = ms, input_cell = [], isLoading_cell = b, trace = []\<rparr>"

text \<open>
  A session of the hook from its first render. \<open>render0\<close> is the first render, on an empty
  history at rest. \<open>world1\<close> is the state after \<open>append(user0)\<close> through \<open>render0\<close>: a turn
  is in flight. \<open>world2\<close> is the state after that turn has received the fragment "Hello"
  and the end event, \<open>render2\<close> the render of it, and \<open>world3\<close> the state after \<open>reload()\<close>
  through \<open>render2\<close>: again a turn is in flight.
\<close>

definition user1 :: message where
  "user1 = \<lparr>id_msg = ''u1'', createdAt = 4, content = ''and then?'', role = User,
            function_call = None\<rparr>"

definition fr1 :: fresh where
  "fr1 = \<lparr>fresh_id = ''a2'', fresh_now = 5\<rparr>"

definition fr2 :: fresh where
  "fr2 = \<lparr>fresh_id = ''a3'', fresh_now = 6\<rparr>"

definition render0 :: render where
  "render0 = useChat opts0 (world0 [] False)"

definition run1 :: run where
  "run1 = runChatCompletionAndHandleFunctionCall render0 fr0
            (setMessages (messages render0 @ [user0]) (world0 [] False))"

definition world1 :: world where
  "world1 = snd (append render0 fr0 user0 (world0 [] False))"

definition world2 :: world where
  "world2 = snd (emit_all [ContentEvent ''Hello'', EndEvent] run1)"

definition render2 :: render where
  "render2 = useChat opts0 world2"

definition world3 :: world where
  "world3 = snd (reload render2 fr1 world2)"

section \<open>Starting a turn\<close>

lemmas step_defs = seq_def in_world_def log_effect_def setMessages_def setIsLoading_def
  client_new_def client_on_def client_off_def client_fetch_def publish_def

lemmas session_defs = world1_def world2_def world3_def render0_def render2_def run1_def
  useChat_def world0_def opts0_def or_empty_def

lemmas eval_defs = session_defs append_def reload_def started_def
  runChatCompletionAndHandleFunctionCall_def runChatCompletion_def emit_all_def emit_def
  content_listener_def end_listener_def cleanup_def resolve_def settle_def step_defs
  messagesWithContext_def new_assistantMessage_def Let_def

lemma runChatCompletion_fst:
  "fst (runChatCompletion r fr w) =
     \<lparr>closure = r, assistantMessage = new_assistantMessage fr,
      listeners = {''content'', ''end'', ''error'', ''function''}, promise = Pending,
      awaiting = False\<rparr>"
  by (auto simp add: runChatCompletion_def step_defs)

lemma runChatCompletion_snd:
  "snd (runChatCompletion r fr w) =
     w\<lparr>messages_cell := messages r @ [new_assistantMessage fr],
        isLoading_cell := True,
        trace := trace w @
          [SetIsLoading True,
           SetMessages (messages r @ [new_assistantMessage fr]),
           ClientNew (or_string (api (options r)) ''/api/copilotkit/openai''),
           ClientOn ''content'', ClientOn ''end'', ClientOn ''error'', ClientOn ''function'',
           ClientFetch \<lparr>fp_messages = messagesWithContext r,
                        fp_functions = functions_opt (options r),
                        fp_headers = headers (options r)\<rparr>]\<rparr>"
  by (simp add: runChatCompletion_def step_defs)

lemma in_flight_start: "in_flight (runChatCompletion r fr w)"
  by (simp add: in_flight_def runChatCompletion_fst runChatCompletion_snd)

lemma awaited_fst:
  "fst (runChatCompletionAndHandleFunctionCall r fr w) =
     (fst (runChatCompletion r fr w))\<lparr>awaiting := True\<rparr>"
  by (simp add: runChatCompletionAndHandleFunctionCall_def Let_def)

lemma awaited_snd:
  "snd (runChatCompletionAndHandleFunctionCall r fr w) = snd (runChatCompletion r fr w)"
  by (simp add: runChatCompletionAndHandleFunctionCall_def Let_def)

lemma in_flight_awaited: "in_flight (runChatCompletionAndHandleFunctionCall r fr w)"
  by (simp add: in_flight_def awaited_fst awaited_snd runChatCompletion_fst
      runChatCompletion_snd)

lemma fetched_append: "fetched (xs @ ys) = fetched xs @ fetched ys"
  by (induction xs rule: fetched.induct) simp_all

section \<open>The listeners\<close>

lemma diff_four: "A - {a} - {b} - {c} - {d} = A - {a, b, c, d}"
  by blast

lemma cleanup_eq:
  "cleanup s =
     ((fst s)\<lparr>listeners := listeners (fst s) - {''content'', ''end'', ''error'', ''function''}\<rparr>,
      (snd s)\<lparr>trace := trace (snd s) @
        [ClientOff ''content'', ClientOff ''end'', ClientOff ''error'', ClientOff ''function'']\<rparr>)"
  by (simp add: prod_eq_iff cleanup_def step_defs diff_four)

lemma emit_content:
  "''content'' \<in> listeners (fst s) \<Longrightarrow>
   emit (ContentEvent c) s =
     ((fst s)\<lparr>assistantMessage :=
         (assistantMessage (fst s))\<lparr>content := content (assistantMessage (fst s)) @ c\<rparr>\<rparr>,
      (snd s)\<lparr>messages_cell := messages (closure (fst s)) @
          [(assistantMessage (fst s))\<lparr>content := content (assistantMessage (fst s)) @ c\<rparr>],
        trace := trace (snd s) @
          [SetMessages (messages (closure (fst s)) @
             [(assistantMessage (fst s))\<lparr>content := content (assistantMessage (fst s)) @ c\<rparr>])]\<rparr>)"
  by (simp add: emit_def content_listener_def step_defs)

lemma emit_end:
  "in_flight s \<Longrightarrow>
   emit EndEvent s =
     ((fst s)\<lparr>listeners := {}, promise := Resolved (assistantMessage (fst s))\<rparr>,
      (snd s)\<lparr>isLoading_cell := False,
        trace := trace (snd s) @
          [SetIsLoading False, ClientOff ''content'', ClientOff ''end'', ClientOff ''error'',
           ClientOff ''function'', Resolve (assistantMessage (fst s))]\<rparr>)"
  by (simp add: emit_def end_listener_def seq_def cleanup_eq in_world_def setIsLoading_def
      log_effect_def resolve_def settle_def in_flight_def)

lemma emit_error:
  "in_flight s \<Longrightarrow>
   emit (ErrorEvent e) s =
     ((fst s)\<lparr>listeners := {}, promise := Rejected e\<rparr>,
      (snd s)\<lparr>isLoading_cell := False,
        trace := trace (snd s) @
          [SetIsLoading False, ClientOff ''content'', ClientOff ''end'', ClientOff ''error'',
           ClientOff ''function'', Reject e]\<rparr>)"
  by (simp add: emit_def error_listener_def seq_def cleanup_eq in_world_def setIsLoading_def
      log_effect_def reject_def settle_def in_flight_def)

lemma emit_function:
  "in_flight s \<Longrightarrow>
   emit (FunctionEvent fc) s =
     ((fst s)\<lparr>assistantMessage := (assistantMessage (fst s))\<lparr>function_call := Some fc\<rparr>,
        listeners := {},
        promise := Resolved ((assistantMessage (fst s))\<lparr>function_call := Some fc\<rparr>)\<rparr>,
      (snd s)\<lparr>messages_cell := messages (closure (fst s)) @
          [(assistantMessage (fst s))\<lparr>function_call := Some fc\<rparr>],
        isLoading_cell := False,
        trace := trace (snd s) @
          [SetMessages (messages (closure (fst s)) @
             [(assistantMessage (fst s))\<lparr>function_call := Some fc\<rparr>]),
           SetIsLoading False, ClientOff ''content'', ClientOff ''end'', ClientOff ''error'',
           ClientOff ''function'',
           Resolve ((assistantMessage (fst s))\<lparr>function_call := Some fc\<rparr>)]\<rparr>)"
  by (simp add: emit_def function_listener_def seq_def cleanup_eq in_world_def setIsLoading_def
      setMessages_def publish_def log_effect_def resolve_def settle_def in_flight_def)

text \<open>
  The function-call handler is called by the job that follows the \<open>await\<close>, with the
  \<open>messages\<close> of the render that started the turn.
\<close>

lemma handler_called_after_function_event:
  "onFunctionCall (options r) \<Longrightarrow>
   snd (after_await (emit (FunctionEvent fc) (runChatCompletionAndHandleFunctionCall r fr w))) =
     log_effect (OnFunctionCall (messages r) fc)
       (snd (emit (FunctionEvent fc) (runChatCompletionAndHandleFunctionCall r fr w)))"
  by (simp add: emit_function [OF in_flight_awaited] after_await_def awaited_fst awaited_snd
      runChatCompletion_fst)

lemma emit_detached: "listeners (fst s) = {} \<Longrightarrow> emit ev s = s"
  by (simp add: emit_def)

lemma emit_all_detached: "listeners (fst s) = {} \<Longrightarrow> emit_all evs s = s"
  by (induction evs) (simp_all add: emit_all_def emit_detached)

lemma emit_all_append: "emit_all (xs @ ys) s = emit_all ys (emit_all xs s)"
  by (simp add: emit_all_def)

lemma emit_all_Cons: "emit_all (x # xs) s = emit_all xs (emit x s)"
  by (simp add: emit_all_def)

lemma emit_all_Nil: "emit_all [] s = s"
  by (simp add: emit_all_def)

section \<open>Streaming content\<close>

lemma in_flight_content: "in_flight s \<Longrightarrow> in_flight (emit (ContentEvent c) s)"
  by (simp add: in_flight_def emit_content)

lemma in_flight_contents: "in_flight s \<Longrightarrow> in_flight (emit_all (map ContentEvent ds) s)"
  by (induction ds arbitrary: s) (simp_all add: emit_all_Nil emit_all_Cons in_flight_content)

lemma contents_fst:
  "in_flight s \<Longrightarrow>
   fst (emit_all (map ContentEvent ds) s) =
     (fst s)\<lparr>assistantMessage :=
        (assistantMessage (fst s))\<lparr>content := content (assistantMessage (fst s)) @ concat ds\<rparr>\<rparr>"
proof (induction ds arbitrary: s)
  case Nil
  then show ?case by (simp add: emit_all_Nil)
next
  case (Cons d ds)
  have "in_flight (emit (ContentEvent d) s)"
    using Cons.prems by (rule in_flight_content)
  from Cons.IH [OF this] show ?case
    using Cons.prems by (simp add: emit_all_Cons emit_content in_flight_def)
qed

text \<open>
  After any number of content events a freshly started turn is still in flight, and its
  pending message and the published list carry the fragments received so far, in order.
\<close>

lemma contents_state:
  "let s = emit_all (map ContentEvent ds) (runChatCompletion r fr w)
   in in_flight s \<and> closure (fst s) = r \<and>
      assistantMessage (fst s) = (new_assistantMessage fr)\<lparr>content := concat ds\<rparr> \<and>
      messages_cell (snd s) = messages r @ [(new_assistantMessage fr)\<lparr>content := concat ds\<rparr>]"
proof -
  let ?s = "emit_all (map ContentEvent ds) (runChatCompletion r fr w)"
  have fl: "in_flight ?s"
    by (rule in_flight_contents [OF in_flight_start])
  have a: "assistantMessage (fst ?s) = (new_assistantMessage fr)\<lparr>content := concat ds\<rparr>"
    by (simp add: contents_fst [OF in_flight_start] runChatCompletion_fst
        new_assistantMessage_def)
  have c: "closure (fst ?s) = r"
    by (simp add: contents_fst [OF in_flight_start] runChatCompletion_fst)
  have m: "messages_cell (snd ?s) =
      messages r @ [(new_assistantMessage fr)\<lparr>content := concat ds\<rparr>]"
    using fl a c by (simp add: in_flight_def)
  show ?thesis using fl a c m by (simp add: Let_def)
qed

lemmas contents_in_flight = contents_state [unfolded Let_def, THEN conjunct1]
lemmas contents_closure = contents_state [unfolded Let_def, THEN conjunct2, THEN conjunct1]
lemmas contents_assistant =
  contents_state [unfolded Let_def, THEN conjunct2, THEN conjunct2, THEN conjunct1]
lemmas contents_messages =
  contents_state [unfolded Let_def, THEN conjunct2, THEN conjunct2, THEN conjunct2]

lemma contents_isLoading:
  "in_flight s \<Longrightarrow>
   isLoading_cell (snd (emit_all (map ContentEvent ds) s)) = isLoading_cell (snd s)"
proof (induction ds arbitrary: s)
  case Nil
  then show ?case by (simp add: emit_all_Nil)
next
  case (Cons d ds)
  have "in_flight (emit (ContentEvent d) s)"
    using Cons.prems by (rule in_flight_content)
  from Cons.IH [OF this] show ?case
    using Cons.prems by (simp add: emit_all_Cons emit_content in_flight_def)
qed

text \<open>Every render made while a turn streams content has \<open>isLoading\<close> true.\<close>

lemma loading_during_turn:
  "isLoading (useChat opts (snd (emit_all (map ContentEvent ds) (runChatCompletion r fr w))))"
  by (simp add: useChat_def contents_isLoading [OF in_flight_start] runChatCompletion_snd)

section \<open>A turn from start to settlement\<close>

text \<open>
  Claim C2. Whatever content events the client delivers to a freshly started turn, when
  an end event follows them the promise of the turn is resolved with the assistant message
  whose content is the concatenation of the fragments in the order of their delivery; the
  list the next render reads as \<open>messages\<close> ends with that message, and \<open>isLoading\<close> is
  false.
\<close>

theorem content_then_end:
  "let s = emit_all (map ContentEvent ds @ [EndEvent]) (runChatCompletion r fr w);
       m = (new_assistantMessage fr)\<lparr>content := concat ds\<rparr>
   in promise (fst s) = Resolved m \<and>
      messages (useChat opts (snd s)) = messages r @ [m] \<and>
      last (messages (useChat opts (snd s))) = m \<and>
      isLoading (useChat opts (snd s)) = False"
  by (simp add: Let_def emit_all_append emit_all_Cons emit_all_Nil
      emit_end [OF contents_in_flight] contents_assistant contents_messages useChat_def)

text \<open>
  Claim C3. When a function event reaches a turn that has seen only content events so
  far, the promise is resolved at once with the pending assistant message carrying the
  function call, \<open>isLoading\<close> becomes false, every listener is removed, and whatever events
  the client delivers afterwards leave the turn and the state as they are.
\<close>

theorem function_event_ends_turn:
  "let s0 = emit_all (map ContentEvent ds) (runChatCompletion r fr w);
       s = emit (FunctionEvent fc) s0;
       m = (new_assistantMessage fr)\<lparr>content := concat ds, function_call := Some fc\<rparr>
   in promise (fst s) = Resolved m \<and>
      messages (useChat opts (snd s)) = messages r @ [m] \<and>
      isLoading (useChat opts (snd s)) = False \<and>
      listeners (fst s) = {} \<and>
      emit_all rest s = s"
proof -
  let ?s0 = "emit_all (map ContentEvent ds) (runChatCompletion r fr w)"
  let ?s = "emit (FunctionEvent fc) ?s0"
  note fl = contents_in_flight [of ds r fr w]
  have l: "listeners (fst ?s) = {}"
    by (simp add: emit_function [OF fl])
  have "emit_all rest ?s = ?s"
    using l by (rule emit_all_detached)
  then show ?thesis
    by (simp add: Let_def emit_function [OF fl] contents_assistant contents_closure useChat_def)
qed

text \<open>
  Claim C7. When an error event reaches a turn in flight, the listener sets \<open>isLoading\<close>
  to false, removes the four listeners and only then rejects the promise with the error of
  the event; later events of the turn change nothing.
\<close>

theorem error_event_rejects:
  "let s0 = emit_all (map ContentEvent ds) (runChatCompletion r fr w);
       s = emit (ErrorEvent e) s0
   in promise (fst s) = Rejected e \<and>
      isLoading (useChat opts (snd s)) = False \<and>
      listeners (fst s) = {} \<and>
      trace (snd s) = trace (snd s0) @
        [SetIsLoading False, ClientOff ''content'', ClientOff ''end'', ClientOff ''error'',
         ClientOff ''function'', Reject e] \<and>
      emit_all rest s = s"
proof -
  let ?s0 = "emit_all (map ContentEvent ds) (runChatCompletion r fr w)"
  let ?s = "emit (ErrorEvent e) ?s0"
  note fl = contents_in_flight [of ds r fr w]
  have l: "listeners (fst ?s) = {}"
    by (simp add: emit_error [OF fl])
  have "emit_all rest ?s = ?s"
    using l by (rule emit_all_detached)
  then show ?thesis
    by (simp add: Let_def emit_error [OF fl] useChat_def)
qed

text \<open>
  Claim C9. When content events are followed by an error event, the assistant message with
  the fragments received so far stays the last element of \<open>messages\<close>: the error listener
  publishes no list of its own. This holds for any number of fragments, in particular for
  one or more.
\<close>

theorem error_keeps_partial_message:
  "let s = emit_all (map ContentEvent ds @ [ErrorEvent e]) (runChatCompletion r fr w);
       m = (new_assistantMessage fr)\<lparr>content := concat ds\<rparr>
   in messages (useChat opts (snd s)) = messages r @ [m] \<and>
      last (messages (useChat opts (snd s))) = m \<and>
      promise (fst s) = Rejected e"
  by (simp add: Let_def emit_all_append emit_all_Cons emit_all_Nil
      emit_error [OF contents_in_flight] contents_messages useChat_def)

section \<open>\<open>append\<close>\<close>

text \<open>
  Everything \<open>append\<close> does when it is not loading, in order. The list it publishes first
  is replaced by the one \<open>runChatCompletion\<close> publishes, and the request is built from the
  \<open>messages\<close> of the render, which the setter has not changed.
\<close>

lemma append_effects:
  "isLoading r = False \<Longrightarrow>
   trace (snd (append r fr m w)) =
     trace w @
       [SetMessages (messages r @ [m]),
        SetIsLoading True,
        SetMessages (messages r @ [new_assistantMessage fr]),
        ClientNew (or_string (api (options r)) ''/api/copilotkit/openai''),
        ClientOn ''content'', ClientOn ''end'', ClientOn ''error'', ClientOn ''function'',
        ClientFetch \<lparr>fp_messages = or_empty (systemMessages (options r)) @ messages r,
                     fp_functions = functions_opt (options r),
                     fp_headers = headers (options r)\<rparr>]"
  by (simp add: append_def started_def awaited_snd
      runChatCompletion_snd setMessages_def log_effect_def messagesWithContext_def)

text \<open>
  Claim C1 says that the request of a turn started by \<open>append\<close> carries the system
  messages followed by the history including the appended message. On an empty history
  with one system message, appending a user message sends a request with the system
  message alone, and the list the next render reads holds only the new assistant message.
\<close>

theorem append_request_omits_appended_message:
  "map fp_messages (fetched (trace (snd (append (useChat opts0 (world0 [] False)) fr0 user0
      (world0 [] False))))) = [[sys0]] \<and>
   messages (useChat opts0 (snd (append (useChat opts0 (world0 [] False)) fr0 user0
      (world0 [] False)))) = [new_assistantMessage fr0]"
  by (simp add: append_def started_def awaited_snd
      runChatCompletion_snd setMessages_def log_effect_def fetched_append messagesWithContext_def
      useChat_def world0_def opts0_def or_empty_def)

text \<open>
  Claim C4 as stated: for every message, \<open>append\<close> called while \<open>isLoading\<close> is true
  alters nothing and issues no request, so that no second concurrent turn is started. The
  guard of \<open>append\<close> reads the \<open>isLoading\<close> of the render through which it is called, not
  the state. After \<open>append(user0)\<close> through the first render the state has \<open>isLoading\<close>
  true and one request issued; a second \<open>append\<close> through the same render, where
  \<open>isLoading\<close> is still false, issues a second request and replaces \<open>messages\<close>.
\<close>

theorem append_twice_through_one_render:
  "isLoading_cell world1 = True \<and>
   map fp_messages (fetched (trace world1)) = [[sys0]] \<and>
   map fp_messages (fetched (trace (snd (append render0 fr1 user1 world1)))) =
     [[sys0], [sys0]] \<and>
   messages_cell world1 = [new_assistantMessage fr0] \<and>
   messages_cell (snd (append render0 fr1 user1 world1)) = [new_assistantMessage fr1]"
  by (simp add: session_defs append_def started_def awaited_snd runChatCompletion_snd
      setMessages_def log_effect_def fetched_append messagesWithContext_def)

text \<open>
  Claim C4, amended. Called through a render in which \<open>isLoading\<close> is true, \<open>append\<close>
  starts no turn and returns the world as it was, whatever the state is: \<open>messages\<close> and
  \<open>isLoading\<close> keep their values and no request is added to those already issued.
\<close>

theorem append_while_loading:
  "isLoading r \<Longrightarrow>
   append r fr m w = (None, w) \<and>
   messages_cell (snd (append r fr m w)) = messages_cell w \<and>
   isLoading_cell (snd (append r fr m w)) = isLoading_cell w \<and>
   fetched (trace (snd (append r fr m w))) = fetched (trace w)"
  by (simp add: append_def)

theorem append_while_loading_witness:
  "isLoading (useChat opts0 world1) \<and>
   append (useChat opts0 world1) fr1 user1 world1 = (None, world1)"
  using append_while_loading [of "useChat opts0 world1" fr1 user1 world1]
  by (simp add: eval_defs)

text \<open>
  In particular \<open>append\<close> through any render made while a turn streams content starts
  nothing.
\<close>

lemma append_during_turn:
  "append (useChat opts (snd (emit_all (map ContentEvent ds) (runChatCompletion r fr w)))) fr' m
     (snd (emit_all (map ContentEvent ds) (runChatCompletion r fr w))) =
   (None, snd (emit_all (map ContentEvent ds) (runChatCompletion r fr w)))"
  by (simp add: append_def loading_during_turn)

section \<open>\<open>reload\<close>\<close>

text \<open>
  Everything \<open>reload\<close> does on a non-empty history when it is not loading, in order. The
  shortened list is published exactly when the last message is from the assistant; the
  list published next and the request are built from the \<open>messages\<close> of the render, last
  message included.
\<close>

lemma reload_effects:
  "isLoading r = False \<Longrightarrow> messages r \<noteq> [] \<Longrightarrow>
   trace (snd (reload r fr w)) =
     trace w @
       (if role (last (messages r)) = Assistant
        then [SetMessages (butlast (messages r))] else []) @
       [SetIsLoading True,
        SetMessages (messages r @ [new_assistantMessage fr]),
        ClientNew (or_string (api (options r)) ''/api/copilotkit/openai''),
        ClientOn ''content'', ClientOn ''end'', ClientOn ''error'', ClientOn ''function'',
        ClientFetch \<lparr>fp_messages = or_empty (systemMessages (options r)) @ messages r,
                     fp_functions = functions_opt (options r),
                     fp_headers = headers (options r)\<rparr>]"
  by (simp add: reload_def started_def awaited_snd
      runChatCompletion_snd setMessages_def log_effect_def messagesWithContext_def Let_def
      last_conv_nth)

text \<open>
  Claim C5 says that \<open>reload\<close> removes a last message of role assistant before it requests
  again. On the history of a user message and an assistant answer, the request still
  carries the answer, and the list the next render reads holds the answer followed by the
  new assistant message.
\<close>

theorem reload_request_keeps_last_assistant_message:
  "map fp_messages (fetched (trace (snd (reload (useChat opts0 (world0 [user0, asst0] False)) fr0
      (world0 [user0, asst0] False))))) = [[sys0, user0, asst0]] \<and>
   messages (useChat opts0 (snd (reload (useChat opts0 (world0 [user0, asst0] False)) fr0
      (world0 [user0, asst0] False)))) = [user0, asst0, new_assistantMessage fr0]"
  by (simp add: reload_def started_def awaited_snd
      runChatCompletion_snd setMessages_def log_effect_def fetched_append messagesWithContext_def
      useChat_def world0_def opts0_def or_empty_def asst0_def Let_def)

text \<open>
  Claim C6 as stated: \<open>reload\<close> called when \<open>messages\<close> is empty, or while \<open>isLoading\<close>
  is true, issues no request, leaves \<open>messages\<close> unchanged, and \<open>isLoading\<close> remains
  false. Two things fail. Called through a render of the loading state \<open>world1\<close>,
  \<open>reload\<close> changes nothing, so \<open>isLoading\<close> is true afterwards, not false. And the guard
  reads the \<open>isLoading\<close> of the render, not the state: after \<open>reload()\<close> through
  \<open>render2\<close> the state has \<open>isLoading\<close> true and two requests issued, and a second
  \<open>reload()\<close> through the same render, where \<open>isLoading\<close> is still false, issues a third.
\<close>

theorem reload_while_loading_counterexample:
  "isLoading (useChat opts0 world1) = True \<and>
   isLoading (useChat opts0 (snd (reload (useChat opts0 world1) fr1 world1))) = True \<and>
   isLoading render2 = False \<and>
   isLoading_cell world3 = True \<and>
   map fp_messages (fetched (trace world3)) =
     [[sys0], [sys0, (new_assistantMessage fr0)\<lparr>content := ''Hello''\<rparr>]] \<and>
   map fp_messages (fetched (trace (snd (reload render2 fr2 world3)))) =
     [[sys0], [sys0, (new_assistantMessage fr0)\<lparr>content := ''Hello''\<rparr>],
      [sys0, (new_assistantMessage fr0)\<lparr>content := ''Hello''\<rparr>]]"
  by (simp add: eval_defs)

text \<open>
  Claim C6, amended. Called through a render whose \<open>messages\<close> is empty, or in which
  \<open>isLoading\<close> is true, \<open>reload\<close> starts no turn and returns the world as it was, whatever
  the state is: no request is issued, and \<open>messages\<close> and \<open>isLoading\<close> keep their values,
  so that on an empty history at rest \<open>isLoading\<close> remains false.
\<close>

theorem reload_noop:
  "isLoading r \<or> messages r = [] \<Longrightarrow>
   reload r fr w = (None, w) \<and>
   messages_cell (snd (reload r fr w)) = messages_cell w \<and>
   isLoading_cell (snd (reload r fr w)) = isLoading_cell w \<and>
   fetched (trace (snd (reload r fr w))) = fetched (trace w)"
  by (auto simp add: reload_def)

theorem reload_noop_witness:
  "messages render0 = [] \<and>
   reload render0 fr0 (world0 [] False) = (None, world0 [] False) \<and>
   isLoading (useChat opts0 (snd (reload render0 fr0 (world0 [] False)))) = False \<and>
   isLoading (useChat opts0 world1) \<and>
   reload (useChat opts0 world1) fr1 world1 = (None, world1)"
  using reload_noop [of render0 fr0 "world0 [] False"]
    reload_noop [of "useChat opts0 world1" fr1 world1]
  by (simp add: eval_defs)

text \<open>
  In particular \<open>reload\<close> through any render made while a turn streams content starts
  nothing.
\<close>

lemma reload_during_turn:
  "reload (useChat opts (snd (emit_all (map ContentEvent ds) (runChatCompletion r fr w)))) fr'
     (snd (emit_all (map ContentEvent ds) (runChatCompletion r fr w))) =
   (None, snd (emit_all (map ContentEvent ds) (runChatCompletion r fr w)))"
  by (simp add: reload_def loading_during_turn)

section \<open>\<open>stop\<close>\<close>

text \<open>
  Claim C8. Every call of \<open>stop\<close> fails with the error "Not implemented", whether a turn
  is in flight or not; \<open>messages\<close> and \<open>isLoading\<close> keep their values, the turn keeps its
  listeners and its pending promise, and nothing is done to the client.
\<close>

theorem stop_always_fails:
  "fst (stop (t, w)) = Inl ''Not implemented'' \<and>
   snd (stop (t, w)) = (t, w) \<and>
   messages (useChat opts (snd (snd (stop (t, w))))) = messages (useChat opts w) \<and>
   isLoading (useChat opts (snd (snd (stop (t, w))))) = isLoading (useChat opts w) \<and>
   trace (snd (snd (stop (t, w)))) = trace w"
  by (simp add: stop_def)

section \<open>What the Unify adapter forwards\<close>

lemma forwarded_filter_map:
  "map (\<lambda>m. \<lparr>cm_role = tm_role (the_text m), cm_content = tm_content (the_text m)\<rparr>)
     (filter is_TextMessage ms) = forwarded ms"
  by (induction ms rule: forwarded.induct) simp_all

text \<open>
  Claim C10. The messages \<open>process\<close> passes to the provider are those of the request that
  are text messages, each as its role and content, in the order of the request; every
  other message is left out.
\<close>

theorem process_forwards_text_messages:
  "cp_messages (process a request) = forwarded (req_messages request)"
  by (simp add: process_def forwarded_filter_map)

end
